theory Spec2Isabelle
  imports Complex_Main "HOL-Library.Word" "HOL-Library.AList"
begin

unbundle bit_operations_syntax

section \<open>Reliable messaging layer: circuits, circuit table, wire header, message system\<close>

text \<open>
  A shallow embedding of \<^verbatim>\<open>llcircuit.cpp\<close> and \<^verbatim>\<open>message.cpp\<close>.
  Every member function becomes a function from the object's state (a record) to the
  new state, with the value it returns beside it. \<^verbatim>\<open>U8\<close> and \<^verbatim>\<open>U32\<close> are machine
  words, so \<^verbatim>\<open>++\<close>, \<^verbatim>\<open>+=\<close> and \<^verbatim>\<open>-\<close> wrap around as in C++. A null pointer is
  \<open>None\<close>. A call that would divide by zero has no result (\<open>None\<close>). \<^verbatim>\<open>F32\<close> is
  the IEEE 754 binary32 format with its rounding.
\<close>

subsection \<open>Basic types\<close>

type_synonym U8 = "8 word"
type_synonym U32 = "32 word"

text \<open>
  \<^verbatim>\<open>std::chrono::steady_clock::time_point\<close>: the clock's tick count. Every function
  that reads \<^verbatim>\<open>steady_clock::now()\<close> takes the value read as its argument \<open>now\<close>. A tick
  is a nanosecond, as in the usual standard libraries, and tick counts and their
  differences are taken to fit the clock's 64-bit count.
\<close>

type_synonym time_point = int

definition ticks_per_second :: int where
  "ticks_per_second = 1000000000"

subsection \<open>\<^verbatim>\<open>F32\<close>: 32-bit floating point\<close>

text \<open>
  A value of \<^verbatim>\<open>F32\<close> is a rational number (for a float: one with a 24-bit significand
  and an exponent in range), an infinity or a NaN. The sign of a zero is not kept: no
  operation of these files tells the two zeros apart. Every arithmetic operation gives
  the exact result rounded to the nearest float, ties going to the even significand
  (\<open>f32_round\<close>); a multiplication and the addition that takes its result round
  one after the other.
\<close>

datatype F32 = Finite rat | PlusInf | MinusInf | NaN

text \<open>The number of binary digits of a positive integer.\<close>

function bit_length :: "int \<Rightarrow> int" where
  "bit_length n = (if n \<le> 0 then 0 else 1 + bit_length (n div 2))"
  by pat_completeness auto
termination
  by (relation "measure nat") auto

declare bit_length.simps [simp del]

text \<open>\<open>floor_log2 a b\<close> is the largest \<open>e\<close> with \<open>2 ^ e \<le> a / b\<close>, for positive \<open>a\<close> and \<open>b\<close>.\<close>

definition floor_log2 :: "int \<Rightarrow> int \<Rightarrow> int" where
  "floor_log2 a b =
     (let e0 = bit_length a - bit_length b
      in if b * 2 ^ nat e0 \<le> a * 2 ^ nat (- e0) then e0 else e0 - 1)"

text \<open>
  Rounding the fraction \<open>a / b\<close> (\<open>b\<close> positive) to binary32. \<open>q\<close> is the exponent of
  the last place: 23 below the exponent of the value, and never below that of the
  subnormal numbers. \<open>n\<close> is the value in units of the last place, rounded to the
  nearest integer and to the even one at a tie. A magnitude of \<open>2 ^ 128\<close> or more is an
  infinity.
\<close>

definition f32_round_frac :: "int \<Rightarrow> int \<Rightarrow> F32" where
  "f32_round_frac a b =
     (if a = 0 then Finite 0
      else
        (let e = floor_log2 \<bar>a\<bar> b;
             q = max e (- 126) - 23;
             num = \<bar>a\<bar> * 2 ^ nat (- q);
             den = b * 2 ^ nat q;
             fl = num div den;
             rem = num mod den;
             n = (if 2 * rem < den then fl
                  else if den < 2 * rem then fl + 1
                  else if even fl then fl else fl + 1);
             mag = (of_int (n * 2 ^ nat q) / of_int (2 ^ nat (- q)) :: rat)
         in if 2 ^ 128 \<le> mag then (if 0 < a then PlusInf else MinusInf)
            else Finite (if 0 < a then mag else - mag)))"

definition f32_round :: "rat \<Rightarrow> F32" where
  "f32_round x = (case quotient_of x of (a, b) \<Rightarrow> f32_round_frac a b)"

text \<open>\<^verbatim>\<open>static_cast<float>\<close> of a 64-bit integer.\<close>

definition f32_of_int :: "int \<Rightarrow> F32" where
  "f32_of_int i = f32_round_frac i 1"

fun f32_mul :: "F32 \<Rightarrow> F32 \<Rightarrow> F32" where
  "f32_mul (Finite x) (Finite y) = f32_round (x * y)"
| "f32_mul NaN _ = NaN"
| "f32_mul _ NaN = NaN"
| "f32_mul (Finite x) PlusInf = (if x = 0 then NaN else if 0 < x then PlusInf else MinusInf)"
| "f32_mul (Finite x) MinusInf = (if x = 0 then NaN else if 0 < x then MinusInf else PlusInf)"
| "f32_mul PlusInf (Finite y) = (if y = 0 then NaN else if 0 < y then PlusInf else MinusInf)"
| "f32_mul MinusInf (Finite y) = (if y = 0 then NaN else if 0 < y then MinusInf else PlusInf)"
| "f32_mul PlusInf PlusInf = PlusInf"
| "f32_mul MinusInf MinusInf = PlusInf"
| "f32_mul PlusInf MinusInf = MinusInf"
| "f32_mul MinusInf PlusInf = MinusInf"

fun f32_add :: "F32 \<Rightarrow> F32 \<Rightarrow> F32" where
  "f32_add (Finite x) (Finite y) = f32_round (x + y)"
| "f32_add NaN _ = NaN"
| "f32_add _ NaN = NaN"
| "f32_add PlusInf MinusInf = NaN"
| "f32_add MinusInf PlusInf = NaN"
| "f32_add PlusInf _ = PlusInf"
| "f32_add MinusInf _ = MinusInf"
| "f32_add (Finite x) PlusInf = PlusInf"
| "f32_add (Finite x) MinusInf = MinusInf"

text \<open>
  Division. A zero divisor is taken as positive; the one division of these files is by
  the constant \<^verbatim>\<open>1e9\<close>.
\<close>

fun f32_div :: "F32 \<Rightarrow> F32 \<Rightarrow> F32" where
  "f32_div (Finite x) (Finite y) =
     (if y = 0 then (if x = 0 then NaN else if 0 < x then PlusInf else MinusInf)
      else f32_round (x / y))"
| "f32_div NaN _ = NaN"
| "f32_div _ NaN = NaN"
| "f32_div (Finite x) PlusInf = Finite 0"
| "f32_div (Finite x) MinusInf = Finite 0"
| "f32_div PlusInf (Finite y) = (if 0 \<le> y then PlusInf else MinusInf)"
| "f32_div MinusInf (Finite y) = (if 0 \<le> y then MinusInf else PlusInf)"
| "f32_div PlusInf _ = NaN"
| "f32_div MinusInf _ = NaN"

text \<open>\<^verbatim>\<open>a > b\<close> on floats: false whenever a NaN is compared.\<close>

fun f32_gt :: "F32 \<Rightarrow> F32 \<Rightarrow> bool" where
  "f32_gt (Finite x) (Finite y) = (y < x)"
| "f32_gt NaN _ = False"
| "f32_gt _ NaN = False"
| "f32_gt PlusInf PlusInf = False"
| "f32_gt PlusInf _ = True"
| "f32_gt MinusInf _ = False"
| "f32_gt (Finite x) MinusInf = True"
| "f32_gt (Finite x) PlusInf = False"

text \<open>The literals \<^verbatim>\<open>0.95f\<close> and \<^verbatim>\<open>0.05f\<close>.\<close>

definition f32_0_95 :: F32 where
  "f32_0_95 = f32_round (95 / 100)"

definition f32_0_05 :: F32 where
  "f32_0_05 = f32_round (5 / 100)"

text \<open>
  Modelled from the spec: \<^verbatim>\<open>LLHost\<close> (\<^verbatim>\<open>llhost.h\<close> is not among the sources) is a value
  made of an address and a port, compared by value and used as a key.
\<close>

datatype LLHost = LLHost (getAddress: U32) (getPort: U32)

text \<open>
  Modelled from the spec: \<^verbatim>\<open>LLPacketBuffer\<close> (\<^verbatim>\<open>llpacketbuffer.h\<close> is not among the
  sources) owns a byte region and carries the assigned sequence number, the send
  timestamp and the retry count, which starts at 0. The accessors are the ones
  \<^verbatim>\<open>llcircuit.cpp\<close> calls. The retry count is taken to be a \<^verbatim>\<open>U32\<close> like every other
  counter of these files.
\<close>

record LLPacketBuffer =
  mData :: "U8 list"
  mSequence :: U32
  mSentTime :: time_point
  mRetryCount :: U32

definition newPacketBuffer :: "U8 list \<Rightarrow> LLPacketBuffer" where
  "newPacketBuffer bytes =
     \<lparr>mData = bytes, mSequence = 0, mSentTime = 0, mRetryCount = 0\<rparr>"

definition setSequence :: "U32 \<Rightarrow> LLPacketBuffer \<Rightarrow> LLPacketBuffer" where
  "setSequence s p = p\<lparr>mSequence := s\<rparr>"

definition setSentTime :: "time_point \<Rightarrow> LLPacketBuffer \<Rightarrow> LLPacketBuffer" where
  "setSentTime t p = p\<lparr>mSentTime := t\<rparr>"

definition getSentTime :: "LLPacketBuffer \<Rightarrow> time_point" where
  "getSentTime p = mSentTime p"

definition getRetryCount :: "LLPacketBuffer \<Rightarrow> U32" where
  "getRetryCount p = mRetryCount p"

definition incrementRetryCount :: "LLPacketBuffer \<Rightarrow> LLPacketBuffer" where
  "incrementRetryCount p = p\<lparr>mRetryCount := mRetryCount p + 1\<rparr>"

subsection \<open>\<^verbatim>\<open>std::map<U32, ...>\<close> as a key-ordered association list\<close>

text \<open>
  The unacked packets live in a \<^verbatim>\<open>std::map\<close>: iteration is in ascending key order and
  \<^verbatim>\<open>begin()\<close> is the entry with the smallest key. The model is the list of entries in
  that order; \<^verbatim>\<open>find\<close> is \<^const>\<open>map_of\<close>.
\<close>

type_synonym 'v u32map = "(U32 \<times> 'v) list"

text \<open>\<^verbatim>\<open>m[k] = v\<close>: replace the value of an existing key, or insert in key order.\<close>

fun map_assign :: "U32 \<Rightarrow> 'v \<Rightarrow> 'v u32map \<Rightarrow> 'v u32map" where
  "map_assign k v [] = [(k, v)]"
| "map_assign k v ((k', v') # es) =
     (if k < k' then (k, v) # (k', v') # es
      else if k = k' then (k, v) # es
      else (k', v') # map_assign k v es)"

text \<open>\<^verbatim>\<open>m.erase(m.find(k))\<close> for a key that was found.\<close>

fun map_erase :: "U32 \<Rightarrow> 'v u32map \<Rightarrow> 'v u32map" where
  "map_erase k [] = []"
| "map_erase k ((k', v') # es) = (if k = k' then es else (k', v') # map_erase k es)"

subsection \<open>\<^verbatim>\<open>LLCircuitData\<close>: the state of one circuit\<close>

text \<open>
  The fields of the class in declaration order. \<^verbatim>\<open>mThrottles\<close> is left out:
  \<^verbatim>\<open>LLThrottleGroup\<close> is not among the sources and no member function modelled here
  touches the circuit's own throttle group.
\<close>

record LLCircuitData =
  mHost :: LLHost
  mAlive :: bool
  mBlocked :: bool
  mPacketsOut :: U32
  mPacketsIn :: U32
  mPacketsLost :: U32
  mPacketLoss :: U32
  mLastReceiveTime :: time_point
  mLastSendTime :: time_point
  mPingDelay :: F32
  mPingDelayAveraged :: F32
  mNextOutgoingSequence :: U32
  mNextIncomingSequence :: U32
  mOldestUnackedPacket :: U32
  mUnackedPackets :: "LLPacketBuffer u32map"
  mRetryQueue :: "LLPacketBuffer list"

text \<open>The constructor \<^verbatim>\<open>LLCircuitData(const LLHost& host)\<close>.\<close>

definition newCircuitData :: "LLHost \<Rightarrow> time_point \<Rightarrow> LLCircuitData" where
  "newCircuitData host now =
     \<lparr>mHost = host, mAlive = True, mBlocked = False,
      mPacketsOut = 0, mPacketsIn = 0, mPacketsLost = 0, mPacketLoss = 0,
      mLastReceiveTime = now, mLastSendTime = now,
      mPingDelay = Finite 0, mPingDelayAveraged = Finite 0,
      mNextOutgoingSequence = 0, mNextIncomingSequence = 0, mOldestUnackedPacket = 0,
      mUnackedPackets = [], mRetryQueue = []\<rparr>"

text \<open>
  \<^verbatim>\<open>checkPacketInID\<close>. The function returns nothing; the three outcomes of its
  \<^verbatim>\<open>if\<close>/\<^verbatim>\<open>else if\<close> chain are named by \<open>classify\<close> below. The last statement divides
  by \<^verbatim>\<open>mPacketsIn + mPacketsLost\<close>, a \<^verbatim>\<open>U32\<close> sum that the guard \<^verbatim>\<open>mPacketsIn > 0\<close>
  does not keep away from zero: there the call has no result.
\<close>

datatype Classification = InOrderAfterGap | InOrder | DuplicateOrReordered

definition classify :: "U32 \<Rightarrow> LLCircuitData \<Rightarrow> Classification" where
  "classify pid c =
     (if pid > mNextIncomingSequence c then InOrderAfterGap
      else if pid = mNextIncomingSequence c then InOrder
      else DuplicateOrReordered)"

definition checkPacketInID :: "U32 \<Rightarrow> bool \<Rightarrow> time_point \<Rightarrow> LLCircuitData \<Rightarrow> LLCircuitData option" where
  "checkPacketInID pid receive_resent now c =
     (let c1 = c\<lparr>mLastReceiveTime := now, mPacketsIn := mPacketsIn c + 1\<rparr>;
          c2 = (if pid > mNextIncomingSequence c1 then
                  (let missing = pid - mNextIncomingSequence c1
                   in c1\<lparr>mPacketsLost := mPacketsLost c1 + missing,
                          mNextIncomingSequence := pid + 1\<rparr>)
                else if pid = mNextIncomingSequence c1 then
                  c1\<lparr>mNextIncomingSequence := mNextIncomingSequence c1 + 1\<rparr>
                else c1)
      in if mPacketsIn c2 > 0 then
           (if mPacketsIn c2 + mPacketsLost c2 = 0 then None
            else Some (c2\<lparr>mPacketLoss :=
                   (mPacketsLost c2 * 100) div (mPacketsIn c2 + mPacketsLost c2)\<rparr>))
         else Some c2)"

text \<open>\<^verbatim>\<open>nextPacketOutID\<close>: the value returned is the counter before the increment.\<close>

definition nextPacketOutID :: "time_point \<Rightarrow> LLCircuitData \<Rightarrow> U32 \<times> LLCircuitData" where
  "nextPacketOutID now c =
     (mNextOutgoingSequence c,
      c\<lparr>mLastSendTime := now,
        mPacketsOut := mPacketsOut c + 1,
        mNextOutgoingSequence := mNextOutgoingSequence c + 1\<rparr>)"

text \<open>\<^verbatim>\<open>addReliablePacket\<close>: the packet pointer may be null (\<open>None\<close>).\<close>

definition addReliablePacket :: "U32 \<Rightarrow> LLPacketBuffer option \<Rightarrow> time_point \<Rightarrow> LLCircuitData \<Rightarrow> LLCircuitData" where
  "addReliablePacket packet_id packet now c =
     (case packet of
        None \<Rightarrow> c
      | Some pkt \<Rightarrow>
          (let buffer = setSentTime now (setSequence packet_id pkt);
               c1 = c\<lparr>mUnackedPackets := map_assign packet_id buffer (mUnackedPackets c)\<rparr>
           in if length (mUnackedPackets c1) = 1
              then c1\<lparr>mOldestUnackedPacket := packet_id\<rparr>
              else c1))"

text \<open>
  \<^verbatim>\<open>ackReliablePacket\<close>. The ping is \<^verbatim>\<open>std::chrono::duration<float>(now - sent_time)\<close>:
  the tick count converted to \<^verbatim>\<open>float\<close> and divided, in \<^verbatim>\<open>float\<close>, by the number of ticks
  in a second.
\<close>

definition ackReliablePacket :: "U32 \<Rightarrow> time_point \<Rightarrow> LLCircuitData \<Rightarrow> LLCircuitData" where
  "ackReliablePacket packet_id now c =
     (case map_of (mUnackedPackets c) packet_id of
        None \<Rightarrow> c
      | Some pkt \<Rightarrow>
          (let ping = f32_div (f32_of_int (now - getSentTime pkt)) (f32_of_int ticks_per_second);
               c1 = (if mPingDelayAveraged c = Finite 0
                     then c\<lparr>mPingDelayAveraged := ping\<rparr>
                     else c\<lparr>mPingDelayAveraged :=
                            f32_add (f32_mul (mPingDelayAveraged c) f32_0_95)
                                    (f32_mul ping f32_0_05)\<rparr>);
               c2 = c1\<lparr>mPingDelay := ping\<rparr>;
               c3 = c2\<lparr>mUnackedPackets := map_erase packet_id (mUnackedPackets c2)\<rparr>
           in if mUnackedPackets c3 \<noteq> []
              then c3\<lparr>mOldestUnackedPacket := fst (hd (mUnackedPackets c3))\<rparr>
              else c3))"

text \<open>
  \<^verbatim>\<open>checkForTimeouts\<close>. \<open>timed_out\<close> is the test
  \<^verbatim>\<open>now - packet->getSentTime() > timeout_duration\<close>. The left side is a tick count,
  the right side a \<^verbatim>\<open>duration<float>\<close> in seconds, and the comparison is made in their
  common type, \<^verbatim>\<open>float\<close> ticks: the age is converted to \<^verbatim>\<open>float\<close>, and the timeout is
  multiplied, in \<^verbatim>\<open>float\<close>, by the number of ticks in a second. The liveness test at the
  end compares two integer tick counts.
  The loop walks the map with an iterator: \<open>kept\<close> are the entries already passed and
  left in place, the third argument the entries from the iterator on. Erasing at the
  iterator leaves the map holding \<open>kept\<close> followed by the entries after the iterator.
\<close>

definition timed_out :: "time_point \<Rightarrow> F32 \<Rightarrow> LLPacketBuffer \<Rightarrow> bool" where
  "timed_out now timeout_seconds p \<longleftrightarrow>
     f32_gt (f32_of_int (now - getSentTime p))
            (f32_mul timeout_seconds (f32_of_int ticks_per_second))"

fun checkForTimeouts_loop ::
  "time_point \<Rightarrow> F32 \<Rightarrow> LLPacketBuffer u32map \<Rightarrow> LLPacketBuffer u32map \<Rightarrow> LLCircuitData \<Rightarrow> LLCircuitData" where
  "checkForTimeouts_loop now timeout_seconds kept [] c = c"
| "checkForTimeouts_loop now timeout_seconds kept ((k, p) # rest) c =
     (if timed_out now timeout_seconds p then
        (let packet = incrementRetryCount p;
             c1 = (if getRetryCount packet < 3
                   then c\<lparr>mRetryQueue := mRetryQueue c @ [packet]\<rparr>
                   else c\<lparr>mPacketsLost := mPacketsLost c + 1\<rparr>);
             c2 = c1\<lparr>mUnackedPackets := kept @ rest\<rparr>
         in checkForTimeouts_loop now timeout_seconds kept rest c2)
      else checkForTimeouts_loop now timeout_seconds (kept @ [(k, p)]) rest c)"

definition checkForTimeouts :: "F32 \<Rightarrow> time_point \<Rightarrow> LLCircuitData \<Rightarrow> LLCircuitData" where
  "checkForTimeouts timeout_seconds now c =
     (let c1 = checkForTimeouts_loop now timeout_seconds [] (mUnackedPackets c) c
      in if now - mLastReceiveTime c1 > 60 * ticks_per_second
         then c1\<lparr>mAlive := False\<rparr>
         else c1)"

definition hasRetries :: "LLCircuitData \<Rightarrow> bool" where
  "hasRetries c \<longleftrightarrow> mRetryQueue c \<noteq> []"

definition getNextRetry :: "LLCircuitData \<Rightarrow> LLPacketBuffer option \<times> LLCircuitData" where
  "getNextRetry c =
     (case mRetryQueue c of
        [] \<Rightarrow> (None, c)
      | packet # rest \<Rightarrow> (Some packet, c\<lparr>mRetryQueue := rest\<rparr>))"

definition isAlive :: "LLCircuitData \<Rightarrow> bool" where
  "isAlive c = mAlive c"

subsection \<open>\<^verbatim>\<open>LLCircuit\<close>: the table of circuits\<close>

text \<open>
  \<^verbatim>\<open>mCircuitData\<close> is a \<^verbatim>\<open>std::unordered_map\<close> from host to circuit: an association
  list with one entry per key, \<^verbatim>\<open>find\<close> being \<^const>\<open>map_of\<close>, \<^verbatim>\<open>m[k] = v\<close> being
  \<^const>\<open>AList.update\<close> and \<^verbatim>\<open>size()\<close> the number of entries. The mutex is not
  modelled: every function runs to its end before the next one starts.
\<close>

record LLCircuit =
  mCircuitData :: "(LLHost \<times> LLCircuitData) list"
  mTimeoutSeconds :: F32
  mAllowTimeout :: bool
  mMaxCircuits :: U32

text \<open>The constructor \<^verbatim>\<open>LLCircuit()\<close> and the setters.\<close>

definition newCircuit :: LLCircuit where
  "newCircuit =
     \<lparr>mCircuitData = [], mTimeoutSeconds = Finite 5, mAllowTimeout = True,
      mMaxCircuits = 256\<rparr>"

definition setMaxCircuits :: "U32 \<Rightarrow> LLCircuit \<Rightarrow> LLCircuit" where
  "setMaxCircuits max_circuits t = t\<lparr>mMaxCircuits := max_circuits\<rparr>"

definition setTimeoutSeconds :: "F32 \<Rightarrow> LLCircuit \<Rightarrow> LLCircuit" where
  "setTimeoutSeconds timeout t = t\<lparr>mTimeoutSeconds := timeout\<rparr>"

definition setAllowTimeout :: "bool \<Rightarrow> LLCircuit \<Rightarrow> LLCircuit" where
  "setAllowTimeout allow t = t\<lparr>mAllowTimeout := allow\<rparr>"

definition getNumCircuits :: "LLCircuit \<Rightarrow> nat" where
  "getNumCircuits t = length (mCircuitData t)"

text \<open>
  \<^verbatim>\<open>findCircuit\<close> and \<^verbatim>\<open>addCircuit\<close> return a pointer into the table, null when there
  is no circuit. The model returns the circuit pointed to; a write through the pointer
  is \<open>storeCircuit\<close>, which puts the changed circuit back under its host.
\<close>

definition findCircuit :: "LLHost \<Rightarrow> LLCircuit \<Rightarrow> LLCircuitData option" where
  "findCircuit host t = map_of (mCircuitData t) host"

definition storeCircuit :: "LLHost \<Rightarrow> LLCircuitData \<Rightarrow> LLCircuit \<Rightarrow> LLCircuit" where
  "storeCircuit host c t = t\<lparr>mCircuitData := AList.update host c (mCircuitData t)\<rparr>"

definition addCircuit :: "LLHost \<Rightarrow> time_point \<Rightarrow> LLCircuit \<Rightarrow> LLCircuitData option \<times> LLCircuit" where
  "addCircuit host now t =
     (if length (mCircuitData t) \<ge> unat (mMaxCircuits t) then (None, t)
      else (let circuit = newCircuitData host now
            in (Some circuit, t\<lparr>mCircuitData := AList.update host circuit (mCircuitData t)\<rparr>)))"

definition removeCircuit :: "LLHost \<Rightarrow> LLCircuit \<Rightarrow> LLCircuit" where
  "removeCircuit host t =
     (case map_of (mCircuitData t) host of
        None \<Rightarrow> t
      | Some c \<Rightarrow> t\<lparr>mCircuitData := AList.delete host (mCircuitData t)\<rparr>)"

text \<open>
  The lines that open \<^verbatim>\<open>addReliablePacket\<close>, \<^verbatim>\<open>nextPacketID\<close> and \<^verbatim>\<open>checkPacketIn\<close>:
  \<^verbatim>\<open>auto* circuit = findCircuit(host); if (!circuit) circuit = addCircuit(host);\<close>.
  This is the table's get-or-create; a null result is the table's way of saying that
  its capacity is exceeded.
\<close>

definition findOrAddCircuit :: "LLHost \<Rightarrow> time_point \<Rightarrow> LLCircuit \<Rightarrow> LLCircuitData option \<times> LLCircuit" where
  "findOrAddCircuit host now t =
     (case findCircuit host t of
        Some circuit \<Rightarrow> (Some circuit, t)
      | None \<Rightarrow> addCircuit host now t)"

fun LLCircuit_checkForTimeouts_loop ::
  "F32 \<Rightarrow> time_point \<Rightarrow> (LLHost \<times> LLCircuitData) list \<Rightarrow> (LLHost \<times> LLCircuitData) list" where
  "LLCircuit_checkForTimeouts_loop timeout now [] = []"
| "LLCircuit_checkForTimeouts_loop timeout now ((host, circuit) # rest) =
     (let circuit' = checkForTimeouts timeout now circuit
      in if \<not> isAlive circuit'
         then LLCircuit_checkForTimeouts_loop timeout now rest
         else (host, circuit') # LLCircuit_checkForTimeouts_loop timeout now rest)"

definition LLCircuit_checkForTimeouts :: "time_point \<Rightarrow> LLCircuit \<Rightarrow> LLCircuit" where
  "LLCircuit_checkForTimeouts now t =
     (if \<not> mAllowTimeout t then t
      else t\<lparr>mCircuitData :=
             LLCircuit_checkForTimeouts_loop (mTimeoutSeconds t) now (mCircuitData t)\<rparr>)"

definition LLCircuit_ackReliablePacket :: "LLHost \<Rightarrow> U32 \<Rightarrow> time_point \<Rightarrow> LLCircuit \<Rightarrow> LLCircuit" where
  "LLCircuit_ackReliablePacket host packet_id now t =
     (case findCircuit host t of
        None \<Rightarrow> t
      | Some circuit \<Rightarrow> storeCircuit host (ackReliablePacket packet_id now circuit) t)"

definition LLCircuit_addReliablePacket ::
  "LLHost \<Rightarrow> U32 \<Rightarrow> LLPacketBuffer option \<Rightarrow> time_point \<Rightarrow> LLCircuit \<Rightarrow> LLCircuit" where
  "LLCircuit_addReliablePacket host packet_id packet now t =
     (case findOrAddCircuit host now t of
        (None, t') \<Rightarrow> t'
      | (Some circuit, t') \<Rightarrow>
          storeCircuit host (addReliablePacket packet_id packet now circuit) t')"

definition nextPacketID :: "LLHost \<Rightarrow> time_point \<Rightarrow> LLCircuit \<Rightarrow> U32 \<times> LLCircuit" where
  "nextPacketID host now t =
     (case findOrAddCircuit host now t of
        (None, t') \<Rightarrow> (0, t')
      | (Some circuit, t') \<Rightarrow>
          (let (packet_id, circuit') = nextPacketOutID now circuit
           in (packet_id, storeCircuit host circuit' t')))"

text \<open>\<^verbatim>\<open>checkPacketIn\<close> has no result where \<^verbatim>\<open>checkPacketInID\<close> has none.\<close>

definition checkPacketIn :: "LLHost \<Rightarrow> U32 \<Rightarrow> bool \<Rightarrow> time_point \<Rightarrow> LLCircuit \<Rightarrow> LLCircuit option" where
  "checkPacketIn host packet_id receive_resent now t =
     (case findOrAddCircuit host now t of
        (None, t') \<Rightarrow> Some t'
      | (Some circuit, t') \<Rightarrow>
          (case checkPacketInID packet_id receive_resent now circuit of
             None \<Rightarrow> None
           | Some circuit' \<Rightarrow> Some (storeCircuit host circuit' t')))"

text \<open>
  Modelled from the spec: \<^verbatim>\<open>message.cpp\<close> calls
  \<^verbatim>\<open>mCircuit->addReliablePacket(host, id, data, size)\<close>, with four arguments, which
  \<^verbatim>\<open>llcircuit.cpp\<close> does not define. By the spec the datagram is cloned into a packet
  buffer that is handed to the circuit's install: the call is the three-argument
  \<^verbatim>\<open>addReliablePacket\<close> above on a packet that holds the first \<^verbatim>\<open>size\<close> bytes of the
  data.
\<close>

definition LLCircuit_addReliablePacket_bytes ::
  "LLHost \<Rightarrow> U32 \<Rightarrow> U8 list \<Rightarrow> int \<Rightarrow> time_point \<Rightarrow> LLCircuit \<Rightarrow> LLCircuit" where
  "LLCircuit_addReliablePacket_bytes host packet_id bytes sz now t =
     LLCircuit_addReliablePacket host packet_id
       (Some (newPacketBuffer (take (nat sz) bytes))) now t"

subsection \<open>\<^verbatim>\<open>LLMessageSystem\<close>\<close>

text \<open>
  Modelled from the spec: \<^verbatim>\<open>LLMessageTemplate\<close> (\<^verbatim>\<open>llmessagetemplate.h\<close> is not among
  the sources) is an immutable descriptor with a symbolic name, a numeric opcode and
  the flags reliable and zero-coded. The constructor the code calls takes the name, the
  number and the reliable flag; nothing in the sources sets the zero-coded flag, so a
  template built this way is not zero-coded. Blocks and variables are left out: no
  function modelled here reads them.
\<close>

record LLMessageTemplate =
  mName :: string
  mMessageNumber :: U32
  mReliable :: bool
  mZeroCoded :: bool

definition newMessageTemplate :: "string \<Rightarrow> U32 \<Rightarrow> bool \<Rightarrow> LLMessageTemplate" where
  "newMessageTemplate name num reliable =
     \<lparr>mName = name, mMessageNumber = num, mReliable = reliable, mZeroCoded = False\<rparr>"

definition getName :: "LLMessageTemplate \<Rightarrow> string" where
  "getName tmpl = mName tmpl"

definition getMessageNumber :: "LLMessageTemplate \<Rightarrow> U32" where
  "getMessageNumber tmpl = mMessageNumber tmpl"

definition getReliable :: "LLMessageTemplate \<Rightarrow> bool" where
  "getReliable tmpl = mReliable tmpl"

definition getZeroCoded :: "LLMessageTemplate \<Rightarrow> bool" where
  "getZeroCoded tmpl = mZeroCoded tmpl"

text \<open>
  Modelled from the spec: the two flag constants are declared in a header that is not
  among the sources. In the flags byte, bit 0 is reliable and bit 1 is zero-coded.
\<close>

definition LL_RELIABLE_FLAG :: U8 where
  "LL_RELIABLE_FLAG = 0x01"

definition LL_ZEROCODED_FLAG :: U8 where
  "LL_ZEROCODED_FLAG = 0x02"

text \<open>
  The state of the message system. \<open>'h\<close> is the type of handlers: a handler is a
  \<^verbatim>\<open>std::function\<close> whose body lies outside these files, so \<^verbatim>\<open>processMessage\<close>
  reports which handlers it calls, in order, and takes from its argument \<open>run\<close> how
  each call ends; what a handler does to the message system is left out. \<open>'t\<close> is the
  state of the throttle group, whose class is not among the sources. The statistics
  counters carry the prefix \<open>ms\<close> because the circuit has fields of the same names.
  \<open>udpSent\<close> is the socket: the datagrams handed to \<^verbatim>\<open>sendUDP\<close>, oldest first.
  \<^verbatim>\<open>mHost\<close>, the mutex, the running flag and the receive buffer are left out; the
  buffer is an argument of \<^verbatim>\<open>processMessage\<close>.
\<close>

record ('h, 't) LLMessageSystem =
  mMessageTemplates :: "(string \<times> LLMessageTemplate) list"
  mMessageNumbers :: "(U32 \<times> LLMessageTemplate) list"
  mCircuit :: LLCircuit
  mThrottles :: 't
  mHandlerMap :: "(string \<times> 'h list) list"
  msPacketsIn :: U32
  msPacketsOut :: U32
  msPacketsLost :: U32
  msBytesIn :: U32
  msBytesOut :: U32
  mCurrentMessage :: "LLMessageTemplate option"
  mSendBuffer :: "U8 list"
  udpSent :: "(LLHost \<times> U8 list) list"

definition loadMessageTemplate ::
  "string \<Rightarrow> U32 \<Rightarrow> bool \<Rightarrow> ('h, 't) LLMessageSystem \<Rightarrow> ('h, 't) LLMessageSystem" where
  "loadMessageTemplate name num reliable s =
     (let tmpl = newMessageTemplate name num reliable
      in s\<lparr>mMessageTemplates := AList.update name tmpl (mMessageTemplates s),
            mMessageNumbers := AList.update num tmpl (mMessageNumbers s)\<rparr>)"

definition initializeMessageTemplates :: "('h, 't) LLMessageSystem \<Rightarrow> ('h, 't) LLMessageSystem" where
  "initializeMessageTemplates =
     loadMessageTemplate ''RegionHandshakeReply'' 149 True \<circ>
     loadMessageTemplate ''RegionHandshake'' 148 False \<circ>
     loadMessageTemplate ''UpdateUserInfo'' 180 True \<circ>
     loadMessageTemplate ''ChatFromSimulator'' 81 False \<circ>
     loadMessageTemplate ''ChatFromViewer'' 80 True \<circ>
     loadMessageTemplate ''LoginReply'' 4 True \<circ>
     loadMessageTemplate ''LoginRequest'' 3 True \<circ>
     loadMessageTemplate ''CompletePingCheck'' 2 True \<circ>
     loadMessageTemplate ''StartPingCheck'' 1 True"

text \<open>The constructor; the throttle group it creates is the argument.\<close>

definition newMessageSystem :: "'t \<Rightarrow> ('h, 't) LLMessageSystem" where
  "newMessageSystem throttles =
     initializeMessageTemplates
       \<lparr>mMessageTemplates = [], mMessageNumbers = [], mCircuit = newCircuit,
        mThrottles = throttles, mHandlerMap = [],
        msPacketsIn = 0, msPacketsOut = 0, msPacketsLost = 0, msBytesIn = 0, msBytesOut = 0,
        mCurrentMessage = None, mSendBuffer = [], udpSent = []\<rparr>"

text \<open>\<^verbatim>\<open>setHandlerFunc\<close>: \<^verbatim>\<open>mHandlerMap[msgname].push_back(handler)\<close>.\<close>

definition setHandlerFunc :: "string \<Rightarrow> 'h \<Rightarrow> ('h, 't) LLMessageSystem \<Rightarrow> ('h, 't) LLMessageSystem" where
  "setHandlerFunc msgname handler s =
     (let old = (case map_of (mHandlerMap s) msgname of None \<Rightarrow> [] | Some hs \<Rightarrow> hs)
      in s\<lparr>mHandlerMap := AList.update msgname (old @ [handler]) (mHandlerMap s)\<rparr>)"

text \<open>
  The bytes \<^verbatim>\<open>addMessageHeader\<close> appends for the message number (its last \<^verbatim>\<open>if\<close>
  chain). The four bytes of the widest form are the object representation of the
  \<^verbatim>\<open>U32\<close>, least significant byte first on the little-endian hosts the viewer runs
  on.
\<close>

definition U32_bytes :: "U32 \<Rightarrow> U8 list" where
  "U32_bytes x = [ucast x, ucast (drop_bit 8 x), ucast (drop_bit 16 x), ucast (drop_bit 24 x)]"

definition messageNumberBytes :: "U32 \<Rightarrow> U8 list" where
  "messageNumberBytes msgnum =
     (if msgnum < 256 then [ucast msgnum]
      else if msgnum < 65536 then [0xFF, ucast (drop_bit 8 msgnum), ucast (msgnum AND 0xFF)]
      else [0xFF, 0xFF] @ U32_bytes msgnum)"

definition addMessageHeader :: "string \<Rightarrow> ('h, 't) LLMessageSystem \<Rightarrow> ('h, 't) LLMessageSystem" where
  "addMessageHeader msgname s =
     (case map_of (mMessageTemplates s) msgname of
        None \<Rightarrow> s
      | Some tmpl \<Rightarrow>
          (let flags0 = (0 :: U8);
               flags1 = (if getReliable tmpl then flags0 OR LL_RELIABLE_FLAG else flags0);
               flags = (if getZeroCoded tmpl then flags1 OR LL_ZEROCODED_FLAG else flags1);
               msgnum = getMessageNumber tmpl
           in s\<lparr>mSendBuffer :=
                  mSendBuffer s @ [flags] @ replicate 4 0 @ messageNumberBytes msgnum\<rparr>))"

definition newMessage :: "string \<Rightarrow> ('h, 't) LLMessageSystem \<Rightarrow> bool \<times> ('h, 't) LLMessageSystem" where
  "newMessage msgname s =
     (case map_of (mMessageTemplates s) msgname of
        None \<Rightarrow> (False, s)
      | Some tmpl \<Rightarrow>
          (True, addMessageHeader msgname (s\<lparr>mCurrentMessage := Some tmpl, mSendBuffer := []\<rparr>)))"

definition addVariableData :: "U8 list \<Rightarrow> ('h, 't) LLMessageSystem \<Rightarrow> ('h, 't) LLMessageSystem" where
  "addVariableData bytes s = s\<lparr>mSendBuffer := mSendBuffer s @ bytes\<rparr>"

definition addU32 :: "string \<Rightarrow> U32 \<Rightarrow> ('h, 't) LLMessageSystem \<Rightarrow> ('h, 't) LLMessageSystem" where
  "addU32 varname v s = addVariableData (U32_bytes v) s"

text \<open>\<^verbatim>\<open>sendUDP\<close> hands the datagram to the socket and returns its size.\<close>

definition sendUDP :: "LLHost \<Rightarrow> U8 list \<Rightarrow> ('h, 't) LLMessageSystem \<Rightarrow> int \<times> ('h, 't) LLMessageSystem" where
  "sendUDP host bytes s = (int (length bytes), s\<lparr>udpSent := udpSent s @ [(host, bytes)]\<rparr>)"

text \<open>
  \<^verbatim>\<open>sendMessage\<close>. \<^verbatim>\<open>LLThrottleGroup::checkOverflow\<close> is not among the sources: it is
  the argument \<open>checkOverflow\<close>, a function of the host, the size and the throttle state
  that returns its answer and the new throttle state. The clock is read once for the
  whole call.
\<close>

definition sendMessage ::
  "(LLHost \<Rightarrow> nat \<Rightarrow> 't \<Rightarrow> bool \<times> 't) \<Rightarrow> LLHost \<Rightarrow> time_point \<Rightarrow>
   ('h, 't) LLMessageSystem \<Rightarrow> int \<times> ('h, 't) LLMessageSystem" where
  "sendMessage checkOverflow host now s =
     (if mSendBuffer s = [] then (0, s)
      else
        (let (packet_id, circuit') = nextPacketID host now (mCircuit s);
             s1 = s\<lparr>mCircuit := circuit'\<rparr>;
             (overflow, throttles') = checkOverflow host (length (mSendBuffer s1)) (mThrottles s1);
             s2 = s1\<lparr>mThrottles := throttles'\<rparr>
         in if \<not> overflow then (0, s2)
            else
              (let (bytes_sent, s3) = sendUDP host (mSendBuffer s2) s2
               in if bytes_sent > 0 then
                    (let s4 = s3\<lparr>msPacketsOut := msPacketsOut s3 + 1,
                                  msBytesOut := msBytesOut s3 + word_of_int bytes_sent\<rparr>;
                         s5 = (case mCurrentMessage s4 of
                                 None \<Rightarrow> s4
                               | Some tmpl \<Rightarrow>
                                   if getReliable tmpl then
                                     s4\<lparr>mCircuit :=
                                          LLCircuit_addReliablePacket_bytes host packet_id
                                            (mSendBuffer s4) (int (length (mSendBuffer s4)))
                                            now (mCircuit s4)\<rparr>
                                   else s4)
                     in (bytes_sent, s5))
                  else (bytes_sent, s3))))"

text \<open>
  \<^verbatim>\<open>decodeZeroData\<close>: the loop reads two neighbouring bytes, stores the second in the
  local \<^verbatim>\<open>zero_count\<close> and writes nothing.
\<close>

function decodeZeroData_loop :: "int \<Rightarrow> U8 list \<Rightarrow> int \<Rightarrow> U8 list" where
  "decodeZeroData_loop i buffer sz =
     (if i < sz - 1 then
        (if buffer ! nat i = 0x00 \<and> buffer ! nat (i + 1) \<noteq> 0x00 then
           (let zero_count = uint (buffer ! nat (i + 1))
            in decodeZeroData_loop (i + 1) buffer sz)
         else decodeZeroData_loop (i + 1) buffer sz)
      else buffer)"
  by pat_completeness auto
termination
  by (relation "measure (\<lambda>(i, buffer, sz). nat (sz - 1 - i))") auto

declare decodeZeroData_loop.simps [simp del]

definition decodeZeroData :: "U8 list \<Rightarrow> int \<Rightarrow> U8 list" where
  "decodeZeroData buffer sz = decodeZeroData_loop 0 buffer sz"

text \<open>
  The header fields \<^verbatim>\<open>processMessage\<close> reads. \<open>read_U32\<close> is
  \<^verbatim>\<open>*reinterpret_cast<U32*>(buffer + i)\<close> on a little-endian host; \<open>parseMessageNumber\<close>
  is the \<^verbatim>\<open>if\<close> chain on \<^verbatim>\<open>buffer[5]\<close> and gives the message number and the offset
  of the payload.
\<close>

definition read_U32 :: "U8 list \<Rightarrow> nat \<Rightarrow> U32" where
  "read_U32 buffer i =
     ucast (buffer ! i) OR push_bit 8 (ucast (buffer ! (i + 1)))
       OR push_bit 16 (ucast (buffer ! (i + 2))) OR push_bit 24 (ucast (buffer ! (i + 3)))"

definition parseMessageNumber :: "U8 list \<Rightarrow> U32 \<times> int" where
  "parseMessageNumber buffer =
     (if buffer ! 5 = 0xFF then
        (if buffer ! 6 = 0xFF then (read_U32 buffer 7, 11)
         else (push_bit 8 (ucast (buffer ! 6)) OR ucast (buffer ! 7), 8))
      else (ucast (buffer ! 5), 6))"

text \<open>
  How a call of a handler ends: it returns, it throws a \<^verbatim>\<open>std::exception\<close>, which the
  \<^verbatim>\<open>catch\<close> clause inside the loop of \<^verbatim>\<open>processMessage\<close> takes, or it throws something
  else, which no clause takes.
\<close>

datatype HandlerOutcome = HandlerReturns | ThrowsStdException | ThrowsOther

text \<open>
  The handler loop: the handlers called, in order, and whether the loop was left by an
  exception. After a handler that returns or throws a \<^verbatim>\<open>std::exception\<close> the loop goes
  on; a handler that throws something else ends it, and the handlers after it are not
  called.
\<close>

fun runHandlers :: "('h \<Rightarrow> HandlerOutcome) \<Rightarrow> 'h list \<Rightarrow> 'h list \<times> bool" where
  "runHandlers run [] = ([], False)"
| "runHandlers run (handler # rest) =
     (case run handler of
        ThrowsOther \<Rightarrow> ([handler], True)
      | _ \<Rightarrow> (case runHandlers run rest of (called, thrown) \<Rightarrow> (handler # called, thrown)))"

text \<open>How \<^verbatim>\<open>processMessage\<close> ends: it returns a boolean, or an exception leaves it.\<close>

datatype ProcessOutcome = Returned bool | LeftByException

text \<open>
  \<^verbatim>\<open>processMessage\<close>; \<open>sz\<close> is its argument \<^verbatim>\<open>size\<close>. The result is how the call
  ends, the handlers it called in the order of the calls, the buffer as the function
  leaves it, and the new state. The clock is read once for the whole call.
\<close>

definition processMessage ::
  "('h \<Rightarrow> HandlerOutcome) \<Rightarrow> LLHost \<Rightarrow> U8 list \<Rightarrow> int \<Rightarrow> time_point \<Rightarrow>
   ('h, 't) LLMessageSystem \<Rightarrow>
   ProcessOutcome \<times> 'h list \<times> U8 list \<times> ('h, 't) LLMessageSystem" where
  "processMessage run sender buffer sz now s =
     (if sz < 6 then (Returned False, [], buffer, s)
      else
        (let flags = buffer ! 0;
             reliable = (flags AND LL_RELIABLE_FLAG \<noteq> 0);
             zerocoded = (flags AND LL_ZEROCODED_FLAG \<noteq> 0);
             sequence = read_U32 buffer 1;
             (msgnum, offset) = parseMessageNumber buffer
         in case map_of (mMessageNumbers s) msgnum of
              None \<Rightarrow> (Returned False, [], buffer, s)
            | Some tmpl \<Rightarrow>
                (let s1 = (if reliable then
                             s\<lparr>mCircuit :=
                                 LLCircuit_addReliablePacket_bytes sender sequence buffer sz
                                   now (mCircuit s)\<rparr>
                           else s);
                     buffer1 = (if zerocoded then
                                  take (nat offset) buffer
                                    @ decodeZeroData (drop (nat offset) buffer) (sz - offset)
                                else buffer);
                     (called, thrown) =
                        (case map_of (mHandlerMap s1) (getName tmpl) of
                           None \<Rightarrow> ([], False)
                         | Some handlers \<Rightarrow> runHandlers run handlers)
                 in (if thrown then LeftByException else Returned True,
                     called, buffer1, s1))))"

text \<open>
  Modelled from the spec: \<^verbatim>\<open>check_overflow\<close> of a throttle (\<^verbatim>\<open>llthrottle.h\<close> is not
  among the sources) returns true when admitting the bytes would exceed the bucket, and
  otherwise debits the bucket and returns false. The throttle state is the token level
  of one bucket.
\<close>

definition checkOverflow_bucket :: "LLHost \<Rightarrow> nat \<Rightarrow> nat \<Rightarrow> bool \<times> nat" where
  "checkOverflow_bucket host size_bytes tokens =
     (if size_bytes > tokens then (True, tokens) else (False, tokens - size_bytes))"

subsection \<open>Example states\<close>

text \<open>Hosts, packets, a circuit and circuit tables on which the theorems are run.\<close>

definition hostA :: LLHost where
  "hostA = LLHost 0x7F000001 9000"

definition hostB :: LLHost where
  "hostB = LLHost 0x7F000001 9001"

definition hostC :: LLHost where
  "hostC = LLHost 0x7F000001 9002"

definition packetA :: LLPacketBuffer where
  "packetA = \<lparr>mData = [1, 0, 0, 0, 0, 1], mSequence = 0, mSentTime = 0, mRetryCount = 0\<rparr>"

definition packetB :: LLPacketBuffer where
  "packetB = \<lparr>mData = [1, 1, 0, 0, 0, 1], mSequence = 1, mSentTime = 0, mRetryCount = 2\<rparr>"

definition packetC :: LLPacketBuffer where
  "packetC =
     \<lparr>mData = [1, 2, 0, 0, 0, 1], mSequence = 2, mSentTime = 5000000000, mRetryCount = 0\<rparr>"

text \<open>
  A circuit that has sent three reliable packets: two at time 0, one of them already
  retried twice, and one five seconds later.
\<close>

definition circuitA :: LLCircuitData where
  "circuitA =
     (newCircuitData hostA 0)\<lparr>mNextOutgoingSequence := 3, mPacketsOut := 3,
        mUnackedPackets := [(0, packetA), (1, packetB), (2, packetC)]\<rparr>"

text \<open>A table that holds one circuit and may hold no more.\<close>

definition tableFull :: LLCircuit where
  "tableFull = snd (findOrAddCircuit hostA 0 (setMaxCircuits 1 newCircuit))"

subsection \<open>Observations and drivers\<close>

text \<open>
  Feeding a list of inbound sequence numbers to \<^verbatim>\<open>checkPacketInID\<close>, one call after
  the other; beside the final circuit it gives, for each call, the branch taken.
\<close>

fun checkPacketInID_all ::
  "U32 list \<Rightarrow> time_point \<Rightarrow> LLCircuitData \<Rightarrow> (Classification list \<times> LLCircuitData) option" where
  "checkPacketInID_all [] now c = Some ([], c)"
| "checkPacketInID_all (pid # pids) now c =
     (case checkPacketInID pid False now c of
        None \<Rightarrow> None
      | Some c' \<Rightarrow>
          (case checkPacketInID_all pids now c' of
             None \<Rightarrow> None
           | Some (cls, c'') \<Rightarrow> Some (classify pid c # cls, c'')))"

text \<open>The fields of a circuit that only \<^verbatim>\<open>checkPacketInID\<close> writes.\<close>

definition inboundCounters :: "LLCircuitData \<Rightarrow> U32 \<times> U32 \<times> U32 \<times> U32" where
  "inboundCounters c =
     (mPacketsIn c, mPacketsLost c, mPacketLoss c, mNextIncomingSequence c)"

text \<open>
  A message system with the message \<^verbatim>\<open>ChatFromSimulator\<close> built and ready to send, its
  throttle holding the given number of tokens.
\<close>

definition sendReady :: "nat \<Rightarrow> (nat, nat) LLMessageSystem" where
  "sendReady tokens = snd (newMessage ''ChatFromSimulator'' (newMessageSystem tokens))"

text \<open>A message system whose circuit to \<open>hostA\<close> has handed out sequence number 0.\<close>

definition systemSent :: "(nat, nat) LLMessageSystem" where
  "systemSent = (newMessageSystem 1000)\<lparr>mCircuit := snd (nextPacketID hostA 0 newCircuit)\<rparr>"

text \<open>
  A message system with handler 7 registered for \<^verbatim>\<open>StartPingCheck\<close>; a datagram for
  that message with the reliable flag and sequence number 7; the system after it has
  processed the datagram from \<open>hostA\<close> one second after the start, and after it has
  processed the same datagram again 58 seconds later. The handler returns.
\<close>

definition systemListening :: "(nat, nat) LLMessageSystem" where
  "systemListening = setHandlerFunc ''StartPingCheck'' 7 (newMessageSystem 1000)"

definition datagramPing :: "U8 list" where
  "datagramPing = [0x01, 7, 0, 0, 0, 0x01]"

definition systemOnce :: "(nat, nat) LLMessageSystem" where
  "systemOnce =
     snd (snd (snd (processMessage (\<lambda>h. HandlerReturns) hostA datagramPing 6 1000000000
       systemListening)))"

definition systemTwice :: "(nat, nat) LLMessageSystem" where
  "systemTwice =
     snd (snd (snd (processMessage (\<lambda>h. HandlerReturns) hostA datagramPing 6 59000000000
       systemOnce)))"

section \<open>Properties of the circuit\<close>

subsection \<open>The timeout sweep of one circuit\<close>

lemma checkForTimeouts_loop_closed:
  "mUnackedPackets c = kept @ rest \<Longrightarrow>
   checkForTimeouts_loop now t kept rest c =
     c\<lparr>mUnackedPackets := kept @ filter (\<lambda>(k, p). \<not> timed_out now t p) rest,
       mRetryQueue := mRetryQueue c @ map incrementRetryCount
          (filter (\<lambda>p. timed_out now t p \<and> getRetryCount (incrementRetryCount p) < 3)
             (map snd rest)),
       mPacketsLost := mPacketsLost c + of_nat (length
          (filter (\<lambda>p. timed_out now t p \<and> \<not> getRetryCount (incrementRetryCount p) < 3)
             (map snd rest)))\<rparr>"
proof (induction rest arbitrary: kept c)
  case Nil
  then show ?case by simp
next
  case (Cons e rest)
  obtain k p where e: "e = (k, p)" by (cases e)
  show ?case
  proof (cases "timed_out now t p")
    case True
    then show ?thesis using Cons.prems e
      by (simp add: Cons.IH Let_def)
  next
    case False
    then show ?thesis using Cons.prems e
      by (simp add: Cons.IH)
  qed
qed

lemma checkForTimeouts_fields:
  "mUnackedPackets (checkForTimeouts t now c) =
     filter (\<lambda>(k, p). \<not> timed_out now t p) (mUnackedPackets c)"
  "mRetryQueue (checkForTimeouts t now c) =
     mRetryQueue c @ map incrementRetryCount
       (filter (\<lambda>p. timed_out now t p \<and> getRetryCount (incrementRetryCount p) < 3)
          (map snd (mUnackedPackets c)))"
  "mPacketsLost (checkForTimeouts t now c) =
     mPacketsLost c + of_nat (length
       (filter (\<lambda>p. timed_out now t p \<and> \<not> getRetryCount (incrementRetryCount p) < 3)
          (map snd (mUnackedPackets c))))"
  by (simp_all add: checkForTimeouts_def Let_def
      checkForTimeouts_loop_closed [where kept = "[]", simplified])

text \<open>Evaluating the rounding on numerals.\<close>

lemma bit_length_pos: "0 < n \<Longrightarrow> bit_length n = 1 + bit_length (n div 2)"
  by (subst bit_length.simps) simp

lemma bit_length_nonpos: "n \<le> 0 \<Longrightarrow> bit_length n = 0"
  by (subst bit_length.simps) simp

lemmas f32_eval = f32_of_int_def f32_round_def f32_round_frac_def floor_log2_def Let_def
  bit_length_pos bit_length_nonpos

text \<open>
  Claim C1 as stated fails. The packets A and B of the example circuit were sent at
  time 0. At 5 seconds and 1 nanosecond their age exceeds a timeout of 5 seconds, yet
  the sweep with that timeout leaves the circuit exactly as it was: both entries stay
  in the unacked map with their retry counts, nothing enters the retry queue and
  \<^verbatim>\<open>mPacketsLost\<close> does not move. The age, converted to \<^verbatim>\<open>float\<close>, is 5000000000 ticks,
  which is not greater than the timeout in \<^verbatim>\<open>float\<close> ticks.
\<close>

theorem checkForTimeouts_age_just_over:
  "(0, packetA) \<in> set (mUnackedPackets circuitA)
   \<and> 5 * ticks_per_second < 5000000001 - getSentTime packetA
   \<and> f32_of_int (5000000001 - getSentTime packetA) = Finite 5000000000
   \<and> f32_mul (Finite 5) (f32_of_int ticks_per_second) = Finite 5000000000
   \<and> checkForTimeouts (Finite 5) 5000000001 circuitA = circuitA"
  by (simp add: circuitA_def packetA_def packetB_def packetC_def newCircuitData_def
      checkForTimeouts_def timed_out_def getSentTime_def ticks_per_second_def f32_eval)

text \<open>
  Claim C1 as amended. An unacked entry has timed out when its age in clock ticks,
  converted to \<^verbatim>\<open>float\<close>, is greater than the timeout in seconds multiplied in \<^verbatim>\<open>float\<close>
  by the number of ticks in a second. The sweep of a circuit with timeout \<open>t\<close> at time
  \<open>now\<close> keeps exactly the unacked entries that have not timed out, unchanged and in
  their order. Every entry that has timed out leaves the unacked map with its retry
  count raised by one: if the raised count is below 3 the packet is appended to the
  retry queue, otherwise it is dropped and \<^verbatim>\<open>mPacketsLost\<close> goes up by one for it, so
  that the counter grows by the number of dropped entries.
\<close>

theorem checkForTimeouts_entries:
  "mUnackedPackets (checkForTimeouts t now c) =
      filter (\<lambda>(k, p). \<not> timed_out now t p) (mUnackedPackets c)
   \<and> mRetryQueue (checkForTimeouts t now c) =
      mRetryQueue c @ map incrementRetryCount
        (filter (\<lambda>p. timed_out now t p \<and> getRetryCount (incrementRetryCount p) < 3)
           (map snd (mUnackedPackets c)))
   \<and> mPacketsLost (checkForTimeouts t now c) =
      mPacketsLost c + of_nat (length
        (filter (\<lambda>p. timed_out now t p \<and> \<not> getRetryCount (incrementRetryCount p) < 3)
           (map snd (mUnackedPackets c))))
   \<and> (\<forall>(k, p) \<in> set (mUnackedPackets c).
        if f32_gt (f32_of_int (now - getSentTime p))
                  (f32_mul t (f32_of_int ticks_per_second))
        then (k, p) \<notin> set (mUnackedPackets (checkForTimeouts t now c))
           \<and> getRetryCount (incrementRetryCount p) = getRetryCount p + 1
           \<and> (getRetryCount (incrementRetryCount p) < 3 \<longrightarrow>
                incrementRetryCount p \<in> set (mRetryQueue (checkForTimeouts t now c)))
        else (k, p) \<in> set (mUnackedPackets (checkForTimeouts t now c)))"
proof -
  have "\<forall>(k, p) \<in> set (mUnackedPackets c).
        if timed_out now t p
        then (k, p) \<notin> set (mUnackedPackets (checkForTimeouts t now c))
           \<and> getRetryCount (incrementRetryCount p) = getRetryCount p + 1
           \<and> (getRetryCount (incrementRetryCount p) < 3 \<longrightarrow>
                incrementRetryCount p \<in> set (mRetryQueue (checkForTimeouts t now c)))
        else (k, p) \<in> set (mUnackedPackets (checkForTimeouts t now c))"
  proof (clarify)
    fix k p assume mem: "(k, p) \<in> set (mUnackedPackets c)"
    then have "p \<in> snd ` set (mUnackedPackets c)" by force
    with mem show "if timed_out now t p
        then (k, p) \<notin> set (mUnackedPackets (checkForTimeouts t now c))
           \<and> getRetryCount (incrementRetryCount p) = getRetryCount p + 1
           \<and> (getRetryCount (incrementRetryCount p) < 3 \<longrightarrow>
                incrementRetryCount p \<in> set (mRetryQueue (checkForTimeouts t now c)))
        else (k, p) \<in> set (mUnackedPackets (checkForTimeouts t now c))"
      by (simp add: checkForTimeouts_fields getRetryCount_def incrementRetryCount_def)
  qed
  then show ?thesis
    unfolding timed_out_def [symmetric]
    by (simp only: checkForTimeouts_fields simp_thms)
qed

theorem checkForTimeouts_entries_witness:
  "timed_out 6000000000 (Finite 5) packetA \<and> timed_out 6000000000 (Finite 5) packetB
   \<and> \<not> timed_out 6000000000 (Finite 5) packetC
   \<and> mUnackedPackets (checkForTimeouts (Finite 5) 6000000000 circuitA) = [(2, packetC)]
   \<and> mRetryQueue (checkForTimeouts (Finite 5) 6000000000 circuitA)
        = [packetA\<lparr>mRetryCount := 1\<rparr>]
   \<and> mPacketsLost (checkForTimeouts (Finite 5) 6000000000 circuitA)
        = mPacketsLost circuitA + 1"
proof -
  have a: "timed_out 6000000000 (Finite 5) packetA"
    by (simp add: packetA_def timed_out_def getSentTime_def ticks_per_second_def f32_eval)
  have b: "timed_out 6000000000 (Finite 5) packetB"
    by (simp add: packetB_def timed_out_def getSentTime_def ticks_per_second_def f32_eval)
  have c: "\<not> timed_out 6000000000 (Finite 5) packetC"
    by (simp add: packetC_def timed_out_def getSentTime_def ticks_per_second_def f32_eval)
  have r: "getRetryCount (incrementRetryCount packetA) < 3"
    "\<not> getRetryCount (incrementRetryCount packetB) < 3"
    "getRetryCount (packetA\<lparr>mRetryCount := 1\<rparr>) < 3"
    "incrementRetryCount packetA = packetA\<lparr>mRetryCount := 1\<rparr>"
    by (simp_all add: packetA_def packetB_def getRetryCount_def incrementRetryCount_def)
  have u: "mUnackedPackets circuitA = [(0, packetA), (1, packetB), (2, packetC)]"
    "mRetryQueue circuitA = []"
    by (simp_all add: circuitA_def newCircuitData_def)
  show ?thesis
    using a b c checkForTimeouts_entries [of "Finite 5" 6000000000 circuitA]
    by (simp add: u r)
qed

subsection \<open>Acknowledging a sequence number that is not awaited\<close>

text \<open>
  Claim C9. If the sequence number \<open>s\<close> is not a key of the unacked map of a circuit,
  \<^verbatim>\<open>ackReliablePacket(s)\<close> leaves the whole circuit as it was: the unacked map, the
  cached oldest unacked sequence, both ping delays and every counter.
\<close>

theorem ackReliablePacket_absent:
  "s \<notin> fst ` set (mUnackedPackets c) \<Longrightarrow> ackReliablePacket s now c = c"
  by (simp add: ackReliablePacket_def map_of_eq_None_iff [THEN iffD2])

theorem ackReliablePacket_absent_witness:
  "7 \<notin> fst ` set (mUnackedPackets circuitA)
   \<and> ackReliablePacket 7 6000000000 circuitA = circuitA"
proof -
  have h: "7 \<notin> fst ` set (mUnackedPackets circuitA)" by (simp add: circuitA_def)
  show ?thesis using h ackReliablePacket_absent [OF h] by simp
qed

section \<open>Properties of the circuit table\<close>

lemma AList_update_absent:
  "k \<notin> fst ` set al \<Longrightarrow> AList.update k v al = al @ [(k, v)]"
  by (induction al) auto

lemma fold_findOrAddCircuit:
  "distinct (map fst (mCircuitData t) @ hs) \<Longrightarrow>
   length (mCircuitData t) + length hs \<le> unat (mMaxCircuits t) \<Longrightarrow>
   fold (\<lambda>h t. snd (findOrAddCircuit h (tm h) t)) hs t =
     t\<lparr>mCircuitData := mCircuitData t @ map (\<lambda>h. (h, newCircuitData h (tm h))) hs\<rparr>"
proof (induction hs arbitrary: t)
  case Nil
  then show ?case by simp
next
  case (Cons h hs)
  have absent: "h \<notin> fst ` set (mCircuitData t)" using Cons.prems(1) by auto
  then have none: "map_of (mCircuitData t) h = None" by (simp add: map_of_eq_None_iff)
  have room: "length (mCircuitData t) < unat (mMaxCircuits t)" using Cons.prems(2) by simp
  have step: "snd (findOrAddCircuit h (tm h) t) =
      t\<lparr>mCircuitData := mCircuitData t @ [(h, newCircuitData h (tm h))]\<rparr>"
    using none room absent
    by (simp add: findOrAddCircuit_def findCircuit_def addCircuit_def Let_def
        AList_update_absent)
  show ?case
    using Cons.prems by (simp add: step Cons.IH)
qed

text \<open>
  Claim C7. Start from a table without circuits and get-or-create a circuit for each
  of as many distinct hosts as \<^verbatim>\<open>mMaxCircuits\<close> allows (host \<open>h\<close> at time \<open>tm h\<close>). The
  table then holds that many circuits, and for any further host both the get-or-create
  and \<^verbatim>\<open>addCircuit\<close> itself return null and leave the table exactly as it was. Every
  host added before is still found with the circuit created for it, and get-or-create
  for such a host returns that circuit without changing the table.
\<close>

theorem addCircuit_capacity:
  assumes "distinct hs" and "length hs = unat (mMaxCircuits t0)" and "mCircuitData t0 = []"
    and "host \<notin> set hs"
  shows "let t = fold (\<lambda>h t. snd (findOrAddCircuit h (tm h) t)) hs t0
         in getNumCircuits t = unat (mMaxCircuits t)
          \<and> findOrAddCircuit host now t = (None, t)
          \<and> addCircuit host now t = (None, t)
          \<and> (\<forall>h \<in> set hs. findCircuit h t = Some (newCircuitData h (tm h))
                \<and> findOrAddCircuit h now t = (Some (newCircuitData h (tm h)), t))"
proof -
  let ?t = "t0\<lparr>mCircuitData := map (\<lambda>h. (h, newCircuitData h (tm h))) hs\<rparr>"
  have fold_eq: "fold (\<lambda>h t. snd (findOrAddCircuit h (tm h) t)) hs t0 = ?t"
    using assms fold_findOrAddCircuit [of t0 hs tm] by simp
  have absent: "map_of (map (\<lambda>h. (h, newCircuitData h (tm h))) hs) host = None"
    using assms(4) by (simp add: map_of_eq_None_iff image_image)
  have present:
    "map_of (map (\<lambda>h. (h, newCircuitData h (tm h))) hs) h = Some (newCircuitData h (tm h))"
    if "h \<in> set hs" for h
    using that by (induction hs) auto
  show ?thesis
    unfolding fold_eq Let_def
    using assms(2) absent present
    by (simp add: getNumCircuits_def findOrAddCircuit_def findCircuit_def addCircuit_def)
qed

theorem addCircuit_capacity_witness:
  "distinct [hostA, hostB]
   \<and> length [hostA, hostB] = unat (mMaxCircuits (setMaxCircuits 2 newCircuit))
   \<and> mCircuitData (setMaxCircuits 2 newCircuit) = [] \<and> hostC \<notin> set [hostA, hostB]
   \<and> mMaxCircuits newCircuit = 256
   \<and> (let t = fold (\<lambda>h t. snd (findOrAddCircuit h 0 t)) [hostA, hostB]
                (setMaxCircuits 2 newCircuit)
      in getNumCircuits t = 2 \<and> findOrAddCircuit hostC 1 t = (None, t)
       \<and> findCircuit hostA t = Some (newCircuitData hostA 0)
       \<and> findCircuit hostB t = Some (newCircuitData hostB 0))"
proof -
  have h1: "distinct [hostA, hostB]" by (simp add: hostA_def hostB_def)
  have h2: "length [hostA, hostB] = unat (mMaxCircuits (setMaxCircuits 2 newCircuit))"
    by (simp add: setMaxCircuits_def newCircuit_def)
  have h3: "mCircuitData (setMaxCircuits 2 newCircuit) = []"
    by (simp add: setMaxCircuits_def newCircuit_def)
  have h4: "hostC \<notin> set [hostA, hostB]" by (simp add: hostA_def hostB_def hostC_def)
  have h5: "mMaxCircuits newCircuit = 256" by (simp add: newCircuit_def)
  show ?thesis
    using h1 h2 h3 h4 h5 addCircuit_capacity [OF h1 h2 h3 h4, of "\<lambda>h. 0" 1]
    by (simp add: Let_def setMaxCircuits_def newCircuit_def findOrAddCircuit_def
        findCircuit_def addCircuit_def getNumCircuits_def hostA_def hostB_def hostC_def)
qed

text \<open>
  Claim C10. For a host without a circuit, \<^verbatim>\<open>nextPacketID\<close> on a table at capacity
  returns 0 and leaves the table exactly as it was, no circuit being created. On a
  table with room the same call also returns 0: it is the first sequence number of the
  circuit it creates, whose counter then stands at 1.
\<close>

theorem nextPacketID_at_capacity:
  assumes "findCircuit host t = None"
  shows "(unat (mMaxCircuits t) \<le> length (mCircuitData t) \<longrightarrow>
            nextPacketID host now t = (0, t))
       \<and> (length (mCircuitData t) < unat (mMaxCircuits t) \<longrightarrow>
            fst (nextPacketID host now t) = 0
          \<and> findCircuit host (snd (nextPacketID host now t)) =
              Some ((newCircuitData host now)\<lparr>mLastSendTime := now, mPacketsOut := 1,
                      mNextOutgoingSequence := 1\<rparr>))"
  using assms
  by (simp add: nextPacketID_def findOrAddCircuit_def addCircuit_def Let_def
      nextPacketOutID_def storeCircuit_def findCircuit_def newCircuitData_def update_conv')

theorem nextPacketID_at_capacity_witness:
  "findCircuit hostB tableFull = None
   \<and> unat (mMaxCircuits tableFull) \<le> length (mCircuitData tableFull)
   \<and> nextPacketID hostB 7 tableFull = (0, tableFull)
   \<and> findCircuit hostB newCircuit = None
   \<and> length (mCircuitData newCircuit) < unat (mMaxCircuits newCircuit)
   \<and> fst (nextPacketID hostB 7 newCircuit) = 0
   \<and> findCircuit hostB (snd (nextPacketID hostB 7 newCircuit)) \<noteq> None"
proof -
  have full: "tableFull =
      \<lparr>mCircuitData = [(hostA, newCircuitData hostA 0)], mTimeoutSeconds = Finite 5,
       mAllowTimeout = True, mMaxCircuits = 1\<rparr>"
    by (simp add: tableFull_def findOrAddCircuit_def findCircuit_def addCircuit_def
        setMaxCircuits_def newCircuit_def Let_def)
  have a: "findCircuit hostB tableFull = None"
    by (simp add: full findCircuit_def hostA_def hostB_def)
  have b: "unat (mMaxCircuits tableFull) \<le> length (mCircuitData tableFull)"
    by (simp add: full)
  have c: "findCircuit hostB newCircuit = None"
    by (simp add: findCircuit_def newCircuit_def)
  have d: "length (mCircuitData newCircuit) < unat (mMaxCircuits newCircuit)"
    by (simp add: newCircuit_def)
  show ?thesis
    using a b c d nextPacketID_at_capacity [OF a, of 7] nextPacketID_at_capacity [OF c, of 7]
    by simp
qed

section \<open>Inbound sequence accounting\<close>

text \<open>
  On a fresh circuit the inbound sequence numbers 0, 1, 2, 2, 4 take, in this order,
  the branches in-order, in-order, in-order, duplicate-or-reordered and
  in-order-after-gap, and leave \<^verbatim>\<open>mPacketsLost\<close> at 1, \<^verbatim>\<open>mPacketsIn\<close> at 5 and the
  expected sequence number at 5.
\<close>

lemma checkPacketInID_sequence:
  "map_option (\<lambda>(cls, c). (cls, mPacketsLost c, mPacketsIn c, mNextIncomingSequence c))
     (checkPacketInID_all [0, 1, 2, 2, 4] 9 (newCircuitData hostA 0)) =
   Some ([InOrder, InOrder, InOrder, DuplicateOrReordered, InOrderAfterGap], 1, 5, 5)"
  by (simp add: checkPacketInID_def classify_def newCircuitData_def Let_def)

text \<open>
  A sequence number beyond the expected one: the call has no result exactly when the
  divisor \<^verbatim>\<open>mPacketsIn + mPacketsLost\<close> has wrapped around to zero; a call that returns
  has added the gap to \<^verbatim>\<open>mPacketsLost\<close> and set the expected number to \<open>pid + 1\<close>.
\<close>

lemma checkPacketInID_gap:
  assumes "mNextIncomingSequence c < pid"
  shows "(checkPacketInID pid rr now c = None \<longleftrightarrow>
            mPacketsIn c + 1 \<noteq> 0
          \<and> mPacketsIn c + 1 + (mPacketsLost c + (pid - mNextIncomingSequence c)) = 0)"
    and "checkPacketInID pid rr now c = Some c' \<Longrightarrow>
           classify pid c = InOrderAfterGap
         \<and> mPacketsLost c' = mPacketsLost c + (pid - mNextIncomingSequence c)
         \<and> mNextIncomingSequence c' = pid + 1
         \<and> mPacketsIn c' = mPacketsIn c + 1"
  using assms
  by (auto simp add: checkPacketInID_def classify_def Let_def word_greater_zero_iff
      split: if_splits)

text \<open>
  Claim C2, at the input where the code leaves it. On a fresh circuit the inbound
  sequence number \<^verbatim>\<open>0xFFFFFFFF\<close> exceeds the expected number 0. The gap \<^verbatim>\<open>0xFFFFFFFF\<close>
  is added to \<^verbatim>\<open>mPacketsLost\<close>, \<^verbatim>\<open>mPacketsIn\<close> is 1, their \<^verbatim>\<open>U32\<close> sum is 0, and the
  loss percentage is computed by dividing by it: the call has no result, so no state
  with the gap accounted for and the expected number advanced comes out of it.
\<close>

theorem checkPacketInID_divides_by_zero:
  "classify 0xFFFFFFFF (newCircuitData hostA 0) = InOrderAfterGap
   \<and> checkPacketInID 0xFFFFFFFF False 9 (newCircuitData hostA 0) = None"
  by (simp add: checkPacketInID_def classify_def newCircuitData_def Let_def)

section \<open>Properties of the wire codec\<close>

subsection \<open>Zero-run decoding\<close>

lemma decodeZeroData_loop_unchanged: "decodeZeroData_loop i buffer sz = buffer"
proof (induction i buffer sz rule: decodeZeroData_loop.induct)
  case (1 i buffer sz)
  show ?case
    by (subst decodeZeroData_loop.simps) (simp add: Let_def "1.IH")
qed

lemma decodeZeroData_unchanged: "decodeZeroData buffer sz = buffer"
  by (simp add: decodeZeroData_def decodeZeroData_loop_unchanged)

text \<open>
  Claim C3, at the input where the code leaves it. The wire form of the payload
  \<^verbatim>\<open>AA 00 00 00 BB\<close> is \<^verbatim>\<open>AA 00 03 BB\<close>. \<^verbatim>\<open>decodeZeroData\<close> returns these four bytes
  as they are and not the five bytes of the payload: the run is found and not expanded.
\<close>

theorem decodeZeroData_no_expansion:
  "decodeZeroData [0xAA, 0x00, 0x03, 0xBB] 4 = [0xAA, 0x00, 0x03, 0xBB]
   \<and> decodeZeroData [0xAA, 0x00, 0x03, 0xBB] 4 \<noteq> [0xAA, 0x00, 0x00, 0x00, 0xBB]"
  by (simp add: decodeZeroData_unchanged)

subsection \<open>The message number in the header\<close>

lemma ucast_ucast_8: "(ucast (ucast m :: U8) :: U32) = take_bit 8 m"
  by (rule bit_word_eqI) (auto simp add: bit_simps)

lemma take_bit_8_small: "(m :: U32) < 256 \<Longrightarrow> take_bit 8 m = m"
  using less_mask_eq [of m 8] by (simp add: take_bit_eq_mask)

lemma take_bit_16_small: "(m :: U32) < 65536 \<Longrightarrow> take_bit 16 m = m"
  using less_mask_eq [of m 16] by (simp add: take_bit_eq_mask)

lemma ucast_eq_255: "(m :: U32) < 256 \<Longrightarrow> (ucast m :: U8) = 0xFF \<longleftrightarrow> m = 255"
proof
  assume a: "m < 256" and b: "(ucast m :: U8) = 0xFF"
  then have "(ucast (ucast m :: U8) :: U32) = ucast (0xFF :: U8)" by simp
  then show "m = 255" using a by (simp add: ucast_ucast_8 take_bit_8_small)
next
  assume "m = 255" then show "(ucast m :: U8) = 0xFF" by simp
qed

lemma read_U32_bytes: "read_U32 (pre @ U32_bytes x @ post) (length pre) = x"
proof -
  have "read_U32 (pre @ U32_bytes x @ post) (length pre) =
     ucast (ucast x :: U8) OR push_bit 8 (ucast (ucast (drop_bit 8 x) :: U8))
       OR push_bit 16 (ucast (ucast (drop_bit 16 x) :: U8))
       OR push_bit 24 (ucast (ucast (drop_bit 24 x) :: U8))"
    by (simp add: read_U32_def U32_bytes_def nth_append)
  also have "\<dots> = x" (is "?w = x")
  proof (rule bit_word_eqI)
    fix n assume "n < LENGTH(32)"
    then show "bit ?w n \<longleftrightarrow> bit x n"
      by (cases "n < 8"; cases "n < 16"; cases "n < 24")
         (auto simp add: bit_simps ucast_ucast_8)
  qed
  finally show ?thesis .
qed

text \<open>
  Where the decoder does invert the encoder: for message numbers below 255, from 256 up
  to \<^verbatim>\<open>0xFEFF\<close>, and from \<^verbatim>\<open>0x10000\<close> on, whatever the flags, the sequence number and
  the payload that follows the header.
\<close>

lemma parseMessageNumber_roundtrip:
  assumes "msgnum < 255 \<or> (256 \<le> msgnum \<and> msgnum < 0xFF00) \<or> 0x10000 \<le> msgnum"
  shows "parseMessageNumber (flags # U32_bytes sequence @ messageNumberBytes msgnum @ payload) =
           (msgnum, 5 + int (length (messageNumberBytes msgnum)))"
proof -
  consider (one) "msgnum < 255" | (two) "256 \<le> msgnum" "msgnum < 0xFF00"
    | (four) "0x10000 \<le> msgnum"
    using assms by blast
  then show ?thesis
  proof cases
    case one
    then have lt: "msgnum < 256" by (simp add: word_less_nat_alt)
    from one have ne: "msgnum \<noteq> 255" by auto
    show ?thesis using lt ne
      by (simp add: parseMessageNumber_def messageNumberBytes_def U32_bytes_def
          ucast_eq_255 ucast_ucast_8 take_bit_8_small)
  next
    case two
    then have a: "\<not> msgnum < 256" "msgnum < 65536"
      by (simp_all add: word_less_nat_alt word_le_nat_alt)
    have hi: "drop_bit 8 msgnum < 255"
    proof -
      have "unat (drop_bit 8 msgnum) = drop_bit 8 (unat msgnum)"
        by (rule unat_drop_bit_eq)
      then have "unat (drop_bit 8 msgnum) = unat msgnum div 256"
        by (simp only: drop_bit_eq_div) simp
      moreover have "unat msgnum < 65280" using two(2) by (simp add: word_less_nat_alt)
      ultimately have "unat (drop_bit 8 msgnum) < 255" by simp
      then show ?thesis by (simp only: word_less_nat_alt) simp
    qed
    then have hi256: "drop_bit 8 msgnum < 256" by (simp add: word_less_nat_alt)
    from hi have hine: "drop_bit 8 msgnum \<noteq> 255" by auto
    have m8: "(0xFF :: U32) = mask 8" by (simp add: mask_eq_exp_minus_1)
    have "push_bit 8 (take_bit 8 (drop_bit 8 msgnum)) OR take_bit 8 (msgnum AND mask 8) =
            take_bit 16 msgnum" (is "?w = _")
    proof (rule bit_word_eqI)
      fix n assume "n < LENGTH(32)"
      then show "bit ?w n \<longleftrightarrow> bit (take_bit 16 msgnum) n"
        by (cases "n < 8") (auto simp add: bit_simps)
    qed
    then have val:
      "push_bit 8 (take_bit 8 (drop_bit 8 msgnum)) OR take_bit 8 (msgnum AND 0xFF) = msgnum"
      using a(2) by (simp only: take_bit_16_small m8)
    show ?thesis using a hi256 hine val
      by (simp add: parseMessageNumber_def messageNumberBytes_def U32_bytes_def
          ucast_eq_255 ucast_ucast_8)
  next
    case four
    then have a: "\<not> msgnum < 256" "\<not> msgnum < 65536"
      by (simp_all add: word_less_nat_alt word_le_nat_alt)
    have len: "length (flags # U32_bytes sequence @ [0xFF, 0xFF]) = 7"
      by (simp add: U32_bytes_def)
    have "read_U32 ((flags # U32_bytes sequence @ [0xFF, 0xFF]) @ U32_bytes msgnum @ payload) 7
            = msgnum"
      using read_U32_bytes [of "flags # U32_bytes sequence @ [0xFF, 0xFF]" msgnum payload]
      by (simp only: len)
    then have r:
      "read_U32 (flags # U32_bytes sequence @ [0xFF, 0xFF] @ U32_bytes msgnum @ payload) 7
         = msgnum"
      by simp
    have b5: "(flags # U32_bytes sequence @ [0xFF, 0xFF] @ U32_bytes msgnum @ payload) ! 5 = 0xFF"
      and b6: "(flags # U32_bytes sequence @ [0xFF, 0xFF] @ U32_bytes msgnum @ payload) ! 6 = 0xFF"
      by (simp_all add: U32_bytes_def)
    have l4: "length (U32_bytes msgnum) = 4" by (simp add: U32_bytes_def)
    show ?thesis using a r b5 b6 l4
      by (simp add: parseMessageNumber_def messageNumberBytes_def)
  qed
qed

text \<open>
  Claim C4, at the inputs where the code leaves it. The encoder writes message number
  255 as the single byte \<^verbatim>\<open>FF\<close>, although 255 is not below \<^verbatim>\<open>0xFF\<close>; the decoder takes
  that byte for the escape and reads the two payload bytes that follow as the number,
  here \<^verbatim>\<open>0x0102\<close>. The encoder writes \<^verbatim>\<open>0xFF00\<close> as \<^verbatim>\<open>FF FF 00\<close>; the decoder takes the
  second \<^verbatim>\<open>FF\<close> for the escape of the four-byte form and reads \<^verbatim>\<open>0x03020100\<close> from the
  bytes that follow. Message number \<^verbatim>\<open>0x20000\<close> is written as \<^verbatim>\<open>FF FF\<close> and four
  little-endian bytes, and is read back.
\<close>

theorem messageNumber_255_not_inverted:
  "messageNumberBytes 255 = [0xFF]
   \<and> parseMessageNumber ([0, 0, 0, 0, 0] @ messageNumberBytes 255 @ [0x01, 0x02]) = (0x0102, 8)
   \<and> messageNumberBytes 0xFF00 = [0xFF, 0xFF, 0x00]
   \<and> parseMessageNumber ([0, 0, 0, 0, 0] @ messageNumberBytes 0xFF00 @ [1, 2, 3, 4])
        = (0x03020100, 11)
   \<and> messageNumberBytes 0x20000 = [0xFF, 0xFF, 0x00, 0x00, 0x02, 0x00]
   \<and> parseMessageNumber ([0, 0, 0, 0, 0] @ messageNumberBytes 0x20000) = (0x20000, 11)"
  by (simp add: messageNumberBytes_def parseMessageNumber_def U32_bytes_def read_U32_def)

section \<open>Properties of the message system\<close>

lemma replicate_4: "replicate 4 x = [x, x, x, x]"
  by (simp add: numeral_eq_Suc)

lemmas message_defs = newMessageSystem_def initializeMessageTemplates_def
  loadMessageTemplate_def newMessageTemplate_def newMessage_def addMessageHeader_def
  getReliable_def getZeroCoded_def getMessageNumber_def getName_def messageNumberBytes_def
  LL_RELIABLE_FLAG_def LL_ZEROCODED_FLAG_def setHandlerFunc_def replicate_4

lemmas circuit_defs = newCircuit_def nextPacketID_def findOrAddCircuit_def findCircuit_def
  addCircuit_def storeCircuit_def nextPacketOutID_def newCircuitData_def
  LLCircuit_addReliablePacket_def LLCircuit_addReliablePacket_bytes_def
  addReliablePacket_def newPacketBuffer_def setSentTime_def setSequence_def

subsection \<open>Sending and the throttle\<close>

text \<open>
  What \<^verbatim>\<open>sendMessage\<close> returns and hands to the socket for a send buffer that is not
  empty, whatever the throttle: the size of the buffer and the datagram when
  \<open>checkOverflow\<close> answers true, and 0 and nothing when it answers false.
\<close>

lemma sendMessage_result:
  assumes "mSendBuffer s \<noteq> []"
  shows "fst (sendMessage chk host now s) =
           (if fst (chk host (length (mSendBuffer s)) (mThrottles s))
            then int (length (mSendBuffer s)) else 0)"
    and "udpSent (snd (sendMessage chk host now s)) =
           (if fst (chk host (length (mSendBuffer s)) (mThrottles s))
            then udpSent s @ [(host, mSendBuffer s)] else udpSent s)"
  using assms
  by (auto simp add: sendMessage_def sendUDP_def Let_def split: prod.splits option.splits)

text \<open>
  Claim C5, at the input where the code leaves it. The built message has 6 bytes. With
  1000 tokens in the bucket the throttle admits it (\<open>checkOverflow\<close> answers false and
  debits 6 tokens), yet \<^verbatim>\<open>sendMessage\<close> returns 0 and nothing reaches the socket. With
  an empty bucket the throttle rejects it (\<open>checkOverflow\<close> answers true), yet
  \<^verbatim>\<open>sendMessage\<close> hands the datagram to the socket and returns 6.
\<close>

theorem sendMessage_polarity:
  "checkOverflow_bucket hostA 6 1000 = (False, 994)
   \<and> fst (sendMessage checkOverflow_bucket hostA 5 (sendReady 1000)) = 0
   \<and> udpSent (snd (sendMessage checkOverflow_bucket hostA 5 (sendReady 1000))) = []
   \<and> checkOverflow_bucket hostA 6 0 = (True, 0)
   \<and> fst (sendMessage checkOverflow_bucket hostA 5 (sendReady 0)) = 6
   \<and> udpSent (snd (sendMessage checkOverflow_bucket hostA 5 (sendReady 0)))
        = [(hostA, [0, 0, 0, 0, 0, 81])]"
  by (simp add: sendReady_def message_defs circuit_defs sendMessage_def sendUDP_def
      checkOverflow_bucket_def Let_def)

subsection \<open>Receiving: the unacked map\<close>

lemma map_assign_keys: "fst ` set (map_assign k v es) = insert k (fst ` set es)"
proof (induction es)
  case Nil
  then show ?case by simp
next
  case (Cons e es)
  obtain k' v' where e: "e = (k', v')" by (cases e)
  show ?case unfolding e using Cons.IH by (simp add: insert_commute)
qed

lemma unat_succ: "(x :: U32) + 1 \<noteq> 0 \<Longrightarrow> unat (x + 1) = unat x + 1"
  using unatSuc [of x] by (simp add: add.commute)

text \<open>
  The send path keeps the keys of the unacked map below the outbound counter: a
  sequence number taken from \<^verbatim>\<open>nextPacketOutID\<close> and installed by \<^verbatim>\<open>addReliablePacket\<close>
  is below the counter afterwards, as long as the counter has not wrapped around.
\<close>

lemma send_path_keys_below_counter:
  assumes "\<forall>k \<in> fst ` set (mUnackedPackets c). unat k < unat (mNextOutgoingSequence c)"
    and "mNextOutgoingSequence c + 1 \<noteq> 0"
  shows "\<forall>k \<in> fst ` set (mUnackedPackets
            (addReliablePacket (fst (nextPacketOutID now c)) (Some p) now
               (snd (nextPacketOutID now c)))).
           unat k < unat (mNextOutgoingSequence
            (addReliablePacket (fst (nextPacketOutID now c)) (Some p) now
               (snd (nextPacketOutID now c))))"
proof -
  have counter: "mNextOutgoingSequence
      (addReliablePacket (fst (nextPacketOutID now c)) (Some p) now
         (snd (nextPacketOutID now c))) = mNextOutgoingSequence c + 1"
    by (simp add: addReliablePacket_def nextPacketOutID_def Let_def)
  have keys: "fst ` set (mUnackedPackets
      (addReliablePacket (fst (nextPacketOutID now c)) (Some p) now
         (snd (nextPacketOutID now c)))) =
      insert (mNextOutgoingSequence c) (fst ` set (mUnackedPackets c))"
    by (simp add: addReliablePacket_def nextPacketOutID_def Let_def map_assign_keys)
  show ?thesis
    unfolding counter keys unat_succ [OF assms(2)]
    using assms(1) by auto
qed

text \<open>
  Claim C6, at the input where the code leaves it. The circuit to \<open>hostA\<close> has handed
  out sequence number 0, so its outbound counter is 1 and its unacked map is empty. A
  datagram from \<open>hostA\<close> with the reliable flag, sequence number 5 and message number 1
  is processed. Afterwards the unacked map of that circuit has the key 5, which the
  outbound counter never produced: the counter is still 1, and the counter less one is
  0, below the key.
\<close>

theorem processMessage_installs_inbound:
  "map_option (\<lambda>c. (mNextOutgoingSequence c, map fst (mUnackedPackets c)))
     (findCircuit hostA (mCircuit systemSent)) = Some (1, [])
   \<and> map_option (\<lambda>c. (mNextOutgoingSequence c - 1, map fst (mUnackedPackets c)))
     (findCircuit hostA (mCircuit (snd (snd (snd
        (processMessage (\<lambda>h. HandlerReturns) hostA [0x01, 5, 0, 0, 0, 0x01] 6 1
           systemSent))))))
     = Some (0, [5])"
  by (simp add: systemSent_def processMessage_def parseMessageNumber_def read_U32_def
      message_defs circuit_defs Let_def update_conv')

subsection \<open>Receiving: handler dispatch\<close>

lemma addReliablePacket_inbound:
  "inboundCounters (addReliablePacket pid pkt now c) = inboundCounters c"
  by (simp add: addReliablePacket_def inboundCounters_def Let_def split: option.splits)

lemma newCircuitData_inbound: "inboundCounters (newCircuitData h now) = (0, 0, 0, 0)"
  by (simp add: inboundCounters_def newCircuitData_def)

lemma LLCircuit_addReliablePacket_inbound:
  assumes "findCircuit h (LLCircuit_addReliablePacket host pid pkt now t) = Some c'"
  shows "inboundCounters c' =
           (case findCircuit h t of None \<Rightarrow> (0, 0, 0, 0) | Some c \<Rightarrow> inboundCounters c)"
proof (cases "findCircuit host t")
  case (Some c)
  then show ?thesis using assms
    by (auto simp add: LLCircuit_addReliablePacket_def findOrAddCircuit_def storeCircuit_def
        findCircuit_def update_conv' addReliablePacket_inbound split: if_splits)
next
  case None
  show ?thesis
  proof (cases "unat (mMaxCircuits t) \<le> length (mCircuitData t)")
    case True
    then show ?thesis using assms None
      by (simp add: LLCircuit_addReliablePacket_def findOrAddCircuit_def addCircuit_def)
  next
    case False
    then show ?thesis using assms None
      by (auto simp add: LLCircuit_addReliablePacket_def findOrAddCircuit_def addCircuit_def
          storeCircuit_def findCircuit_def update_conv' Let_def addReliablePacket_inbound
          newCircuitData_inbound split: if_splits)
  qed
qed

text \<open>
  Whatever the datagram and however the handlers end, \<^verbatim>\<open>processMessage\<close> leaves the
  inbound counters of every circuit as they were, those of a circuit it creates being
  zero: it never calls \<^verbatim>\<open>checkPacketIn\<close>.
\<close>

lemma processMessage_inbound_untouched:
  assumes "findCircuit h (mCircuit (snd (snd (snd
      (processMessage run sender buffer sz now s))))) = Some c'"
  shows "inboundCounters c' =
      (case findCircuit h (mCircuit s) of
         None \<Rightarrow> (0, 0, 0, 0) | Some c \<Rightarrow> inboundCounters c)"
proof -
  have "mCircuit (snd (snd (snd (processMessage run sender buffer sz now s))))
      = mCircuit s
    \<or> mCircuit (snd (snd (snd (processMessage run sender buffer sz now s))))
      = LLCircuit_addReliablePacket sender (read_U32 buffer 1)
          (Some (newPacketBuffer (take (nat sz) buffer))) now (mCircuit s)"
    by (simp add: processMessage_def LLCircuit_addReliablePacket_bytes_def Let_def
        split: prod.splits option.splits)
  then show ?thesis
  proof
    assume "mCircuit (snd (snd (snd (processMessage run sender buffer sz now s))))
      = mCircuit s"
    then show ?thesis using assms by simp
  next
    assume "mCircuit (snd (snd (snd (processMessage run sender buffer sz now s))))
      = LLCircuit_addReliablePacket sender (read_U32 buffer 1)
          (Some (newPacketBuffer (take (nat sz) buffer))) now (mCircuit s)"
    then show ?thesis using assms by (simp add: LLCircuit_addReliablePacket_inbound)
  qed
qed

text \<open>
  With handlers that return or throw a \<^verbatim>\<open>std::exception\<close>, a datagram of at least 6
  bytes with a known message number has every handler registered for the name of its
  template called, in the order of the handler list, whatever its sequence number.
\<close>

lemma runHandlers_all:
  "\<forall>h \<in> set handlers. run h \<noteq> ThrowsOther \<Longrightarrow> runHandlers run handlers = (handlers, False)"
  by (induction handlers) (auto split: HandlerOutcome.splits)

lemma processMessage_calls_every_handler:
  assumes "6 \<le> sz"
    and "map_of (mMessageNumbers s) (fst (parseMessageNumber buffer)) = Some tmpl"
    and "map_of (mHandlerMap s) (getName tmpl) = Some handlers"
    and "\<forall>h \<in> set handlers. run h \<noteq> ThrowsOther"
  shows "fst (processMessage run sender buffer sz now s) = Returned True"
    and "fst (snd (processMessage run sender buffer sz now s)) = handlers"
  using assms runHandlers_all [OF assms(4)]
  by (auto simp add: processMessage_def Let_def split: prod.splits)

lemma setHandlerFunc_appends:
  "map_of (mHandlerMap (setHandlerFunc name h s)) name =
     Some ((case map_of (mHandlerMap s) name of None \<Rightarrow> [] | Some hs \<Rightarrow> hs) @ [h])"
  by (simp add: setHandlerFunc_def Let_def update_conv')

lemma systemOnce_circuit:
  "mCircuit systemOnce =
     newCircuit\<lparr>mCircuitData :=
       [(hostA, (newCircuitData hostA 1000000000)\<lparr>mOldestUnackedPacket := 7,
           mUnackedPackets :=
             [(7, \<lparr>mData = datagramPing, mSequence = 7, mSentTime = 1000000000,
                   mRetryCount = 0\<rparr>)]\<rparr>)]\<rparr>"
  by (simp add: systemOnce_def systemListening_def datagramPing_def processMessage_def
      parseMessageNumber_def read_U32_def message_defs circuit_defs Let_def update_conv')

lemma systemTwice_circuit:
  "mCircuit systemTwice =
     newCircuit\<lparr>mCircuitData :=
       [(hostA, (newCircuitData hostA 1000000000)\<lparr>mOldestUnackedPacket := 7,
           mUnackedPackets :=
             [(7, \<lparr>mData = datagramPing, mSequence = 7, mSentTime = 59000000000,
                   mRetryCount = 0\<rparr>)]\<rparr>)]\<rparr>"
proof -
  have once: "systemOnce = systemListening\<lparr>mCircuit := mCircuit systemOnce\<rparr>"
    by (simp add: systemOnce_def processMessage_def Let_def split: prod.splits option.splits)
  show ?thesis
    by (subst systemTwice_def, subst once)
       (simp add: systemOnce_circuit systemListening_def datagramPing_def processMessage_def
          parseMessageNumber_def read_U32_def message_defs circuit_defs Let_def update_conv')
qed

text \<open>
  The circuit to \<open>hostA\<close> was created at second 1 and a datagram from \<open>hostA\<close> was
  processed at second 59. The sweep of the table at second 61.5 removes the circuit all
  the same: its time of last reception is still the time of its creation.
\<close>

lemma circuit_reaped_despite_traffic:
  "findCircuit hostA (mCircuit systemTwice) \<noteq> None
   \<and> findCircuit hostA (LLCircuit_checkForTimeouts 61500000000 (mCircuit systemTwice)) = None"
  by (simp add: systemTwice_circuit LLCircuit_checkForTimeouts_def checkForTimeouts_def
      isAlive_def timed_out_def getSentTime_def ticks_per_second_def findCircuit_def
      newCircuit_def newCircuitData_def Let_def f32_eval)

text \<open>
  Claim C8, at the input where the code leaves it. Handler 7 is registered for
  \<^verbatim>\<open>StartPingCheck\<close> and returns. The same datagram from \<open>hostA\<close>, with sequence number 7,
  is processed twice. The handler is called for the first datagram and again for the
  second, which is a duplicate. After both, the circuit to \<open>hostA\<close> has counted no
  inbound packet: \<^verbatim>\<open>mPacketsIn\<close>, \<^verbatim>\<open>mPacketsLost\<close>, \<^verbatim>\<open>mPacketLoss\<close> and the expected inbound
  sequence number are 0, and the time of last reception is the time the circuit was
  created. The circuit was never told of a datagram.
\<close>

theorem processMessage_dispatches_duplicate:
  "processMessage (\<lambda>h. HandlerReturns) hostA datagramPing 6 1000000000 systemListening
     = (Returned True, [7], datagramPing, systemOnce)
   \<and> processMessage (\<lambda>h. HandlerReturns) hostA datagramPing 6 59000000000 systemOnce
     = (Returned True, [7], datagramPing, systemTwice)
   \<and> map_option (\<lambda>c. (inboundCounters c, mLastReceiveTime c))
       (findCircuit hostA (mCircuit systemTwice))
     = Some ((0, 0, 0, 0), 1000000000)"
proof -
  have first: "processMessage (\<lambda>h. HandlerReturns) hostA datagramPing 6 1000000000
      systemListening = (Returned True, [7], datagramPing, systemOnce)"
    by (simp add: systemOnce_def)
       (simp add: systemListening_def datagramPing_def processMessage_def
          parseMessageNumber_def read_U32_def message_defs Let_def update_conv')
  have second: "processMessage (\<lambda>h. HandlerReturns) hostA datagramPing 6 59000000000
      systemOnce = (Returned True, [7], datagramPing, systemTwice)"
    by (simp add: systemTwice_def)
       (simp add: systemOnce_def systemListening_def datagramPing_def processMessage_def
          parseMessageNumber_def read_U32_def message_defs Let_def update_conv')
  have counters: "map_option (\<lambda>c. (inboundCounters c, mLastReceiveTime c))
       (findCircuit hostA (mCircuit systemTwice)) = Some ((0, 0, 0, 0), 1000000000)"
    by (simp add: systemTwice_circuit findCircuit_def newCircuit_def newCircuitData_def
        inboundCounters_def)
  show ?thesis using first second counters by (intro conjI)
qed

end
